theory Spec2Isabelle
  imports Main "HOL-Library.Sublist"
begin

section \<open>The attendance dashboard (dashhboard.py)\<close>

text \<open>
  A shallow embedding of \<^verbatim>\<open>src/dashhboard.py\<close>: the session state and the three
  MQTT callbacks, the connection setup, the CSV loader, and the view models that
  \<^verbatim>\<open>main\<close> computes (history filter, export, top-5 ranking).

  Calls into libraries are modelled by what the library does at that call:
  \<^item> \<^verbatim>\<open>collections.deque(maxlen=50)\<close> is a list, leftmost element first;
  \<^item> a decoded JSON document is a value of the datatype \<open>json\<close>;
  \<^item> a CSV file is its table of fields (quoting and line splitting are the CSV
    library's business), and a pandas frame is a list of rows with the type that
    pandas infers for each column;
  \<^item> what a library decides by tables or heuristics of its own is a parameter of
    the model: which columns convert to numbers, which characters are equal up to
    case, in which order a sort leaves equal counts;
  \<^item> the clock and the broker are inputs: the time read by \<^verbatim>\<open>datetime.now()\<close> and
    the outcome of \<^verbatim>\<open>client.connect\<close> are arguments of the functions that use them.
  The strings of the CSV file and of the history filter are sequences of Unicode
  code points; the keys and strings of a JSON document are byte strings.

  The callbacks run on the thread of the MQTT client. The model takes them to act
  on the session state that the render loop reads, one whole callback at a time.
\<close>

subsection \<open>MQTT configuration (lines 20-24)\<close>

definition MQTT_BROKER :: string where
  "MQTT_BROKER = ''broker.hivemq.com''"

definition MQTT_PORT :: nat where
  "MQTT_PORT = 1883"

definition MQTT_TOPIC :: string where
  "MQTT_TOPIC = ''attendance/student''"

definition MQTT_CLIENT_ID :: string where
  "MQTT_CLIENT_ID = ''streamlit_dashboard''"

subsection \<open>Exceptions and decoded payloads\<close>

datatype error =
    UnicodeDecodeError
  | JSONDecodeError
  | TypeError
  | AttributeError
  | ParserError
  | ConnectionError

text \<open>
  A JSON document as \<^verbatim>\<open>json.loads\<close> returns it. An object is a Python dict: an
  association list in insertion order. A number keeps its literal text: the handler
  never computes with it.
\<close>

datatype json =
    JNull
  | JBool bool
  | JNum string
  | JStr string
  | JArr "json list"
  | JObj "(string \<times> json) list"

text \<open>
  The payload of an incoming message, by what lines 55-56 make of it:
  \<^verbatim>\<open>msg.payload.decode()\<close> raises on bytes that are not UTF-8, \<^verbatim>\<open>json.loads\<close> raises on
  text that is not JSON, and otherwise returns the document.
\<close>

datatype payload =
    Not_utf8
  | Not_json
  | Json_text json

definition decode_loads :: "payload \<Rightarrow> error + json" where
  "decode_loads p =
     (case p of
        Not_utf8 \<Rightarrow> Inl UnicodeDecodeError
      | Not_json \<Rightarrow> Inl JSONDecodeError
      | Json_text data \<Rightarrow> Inr data)"

text \<open>
  Python's \<^verbatim>\<open>key in data\<close> and \<^verbatim>\<open>data[key] = v\<close> for each kind of JSON value: a dict
  tests its keys, a string tests for a substring, a list tests its elements, and
  anything else raises TypeError; only a dict accepts the assignment of a string key.
\<close>

definition py_in :: "string \<Rightarrow> json \<Rightarrow> error + bool" where
  "py_in k data =
     (case data of
        JObj kvs \<Rightarrow> Inr (k \<in> set (map fst kvs))
      | JStr s \<Rightarrow> Inr (sublist k s)
      | JArr xs \<Rightarrow> Inr (JStr k \<in> set xs)
      | _ \<Rightarrow> Inl TypeError)"

definition dict_setitem :: "(string \<times> json) list \<Rightarrow> string \<Rightarrow> json \<Rightarrow> (string \<times> json) list" where
  "dict_setitem kvs k v =
     (if k \<in> set (map fst kvs)
      then map (\<lambda>kv. if fst kv = k then (k, v) else kv) kvs
      else kvs @ [(k, v)])"

definition py_setitem :: "json \<Rightarrow> string \<Rightarrow> json \<Rightarrow> error + json" where
  "py_setitem data k v =
     (case data of
        JObj kvs \<Rightarrow> Inr (JObj (dict_setitem kvs k v))
      | _ \<Rightarrow> Inl TypeError)"

subsection \<open>Session state (lines 26-37)\<close>

text \<open>What the callbacks and the setup print or show, in order.\<close>

datatype log_entry =
    Connected_and_subscribed
  | Connection_failed int
  | Disconnected
  | Received json
  | Error_processing_message error
  | Setup_complete
  | Connection_error_shown error

text \<open>
  The four entries of \<^verbatim>\<open>st.session_state\<close>, and beside them what the code does to
  the world outside it: the client instances constructed (line 75), the calls of
  \<^verbatim>\<open>connect\<close> (line 80) and of \<^verbatim>\<open>loop_start\<close> (line 81), the topics subscribed
  (line 43) and the lines printed. A client is named by its number of construction.
\<close>

record state =
  mqtt_connected :: bool
  mqtt_messages :: "json list"
  last_update :: string
  mqtt_client :: "nat option"
  clients_constructed :: nat
  connect_calls :: nat
  loops_started :: nat
  subscriptions :: "string list"
  console :: "log_entry list"

definition maxlen :: nat where
  "maxlen = 50"

definition init_state :: "string \<Rightarrow> state" where
  "init_state now =
     \<lparr> mqtt_connected = False,
       mqtt_messages = [],
       last_update = now,
       mqtt_client = None,
       clients_constructed = 0,
       connect_calls = 0,
       loops_started = 0,
       subscriptions = [],
       console = [] \<rparr>"

text \<open>
  \<^verbatim>\<open>deque.appendleft\<close> on a deque with \<^verbatim>\<open>maxlen\<close>: the new element becomes the
  leftmost one, and a full deque drops its rightmost element.
\<close>

definition appendleft :: "'a \<Rightarrow> 'a list \<Rightarrow> 'a list" where
  "appendleft x d = take maxlen (x # d)"

subsection \<open>MQTT callbacks (lines 39-69)\<close>

definition on_connect :: "int \<Rightarrow> state \<Rightarrow> state" where
  "on_connect rc s =
     (if rc = 0
      then s\<lparr> mqtt_connected := True,
              subscriptions := subscriptions s @ [MQTT_TOPIC],
              console := console s @ [Connected_and_subscribed] \<rparr>
      else s\<lparr> mqtt_connected := False,
              console := console s @ [Connection_failed rc] \<rparr>)"

definition on_disconnect :: "int \<Rightarrow> state \<Rightarrow> state" where
  "on_disconnect rc s =
     s\<lparr> mqtt_connected := False, console := console s @ [Disconnected] \<rparr>"

text \<open>
  The body of the \<^verbatim>\<open>try\<close> of \<^verbatim>\<open>on_message\<close> up to the push (lines 55-60): the event
  to push, or the exception raised on the way. \<open>now\<close> is the clock reading, already
  formatted.
\<close>

definition prepare_event :: "string \<Rightarrow> payload \<Rightarrow> error + json" where
  "prepare_event now p =
     (case decode_loads p of
        Inl e \<Rightarrow> Inl e
      | Inr data \<Rightarrow>
          (case py_in ''received_at'' data of
             Inl e \<Rightarrow> Inl e
           | Inr True \<Rightarrow> Inr data
           | Inr False \<Rightarrow> py_setitem data ''received_at'' (JStr now)))"

definition on_message :: "string \<Rightarrow> payload \<Rightarrow> state \<Rightarrow> state" where
  "on_message now p s =
     (case prepare_event now p of
        Inr data \<Rightarrow>
          s\<lparr> mqtt_messages := appendleft data (mqtt_messages s),
             last_update := now,
             console := console s @ [Received data] \<rparr>
      | Inl e \<Rightarrow>
          s\<lparr> console := console s @ [Error_processing_message e] \<rparr>)"

subsection \<open>MQTT setup (lines 71-88)\<close>

text \<open>
  What \<^verbatim>\<open>client.connect\<close> does is the network's decision: it returns, or it raises
  (an unreachable broker, a refused connection, a timeout).
\<close>

datatype connect_outcome =
    Connect_returns
  | Connect_raises

definition setup_mqtt :: "connect_outcome \<Rightarrow> state \<Rightarrow> state" where
  "setup_mqtt outcome s =
     (case mqtt_client s of
        Some c \<Rightarrow> s
      | None \<Rightarrow>
          (let client = Suc (clients_constructed s);
               s1 = s\<lparr> clients_constructed := client,
                        connect_calls := Suc (connect_calls s) \<rparr>
           in case outcome of
                Connect_returns \<Rightarrow>
                  s1\<lparr> loops_started := Suc (loops_started s1),
                      mqtt_client := Some client,
                      console := console s1 @ [Setup_complete] \<rparr>
              | Connect_raises \<Rightarrow>
                  s1\<lparr> mqtt_connected := False,
                      console := console s1 @ [Connection_error_shown ConnectionError] \<rparr>))"

text \<open>
  One thing that happens to the session: a render cycle calls \<^verbatim>\<open>setup_mqtt\<close> first
  (line 119), and the client's network loop calls the callbacks.
\<close>

datatype event =
    Render connect_outcome
  | Connack int
  | Disconnect int
  | Message string payload

fun step :: "state \<Rightarrow> event \<Rightarrow> state" where
  "step s (Render outcome) = setup_mqtt outcome s"
| "step s (Connack rc) = on_connect rc s"
| "step s (Disconnect rc) = on_disconnect rc s"
| "step s (Message now p) = on_message now p s"

definition run :: "state \<Rightarrow> event list \<Rightarrow> state" where
  "run s es = foldl step s es"

subsection \<open>Strings\<close>

text \<open>
  A Python \<^verbatim>\<open>str\<close> is a sequence of Unicode code points: the fields of the CSV file,
  the search string and the dates are lists of numbers. \<open>str\<close> gives the code points
  of an ASCII literal.
\<close>

type_synonym code_point = nat

type_synonym pystr = "code_point list"

definition str :: "string \<Rightarrow> pystr" where
  "str s = map of_char s"

text \<open>
  \<^verbatim>\<open>str.strip()\<close> removes leading and trailing whitespace: the code points for which
  \<^verbatim>\<open>str.isspace\<close> holds. They are the ASCII ones (tab to carriage return, the four
  separators 0x1C-0x1F, the space) and next line, no-break space, ogham space mark,
  en quad to hair space, line and paragraph separator, narrow no-break space, medium
  mathematical space and ideographic space.
\<close>

definition isspace :: "code_point \<Rightarrow> bool" where
  "isspace c =
     (c \<in> set [0x09, 0x0A, 0x0B, 0x0C, 0x0D, 0x1C, 0x1D, 0x1E, 0x1F, 0x20,
                0x85, 0xA0, 0x1680, 0x2028, 0x2029, 0x202F, 0x205F, 0x3000]
      \<or> (0x2000 \<le> c \<and> c \<le> 0x200A))"

definition strip :: "pystr \<Rightarrow> pystr" where
  "strip s = rev (dropWhile isspace (rev (dropWhile isspace s)))"

subsection \<open>Regular expressions: the fragment of literals and dots\<close>

text \<open>
  \<^verbatim>\<open>Series.str.contains(pat, case=False)\<close> takes \<open>pat\<close> as a regular expression
  (\<^verbatim>\<open>regex=True\<close> is the default) and searches each value with
  \<^verbatim>\<open>re.compile(pat, re.IGNORECASE).search\<close>. The model covers the patterns made of
  ordinary characters and dots. On a pattern with any other special character
  \<open>re_compile\<close> is \<open>None\<close>: what Python does there (another match, or
  \<^verbatim>\<open>re.error\<close>) is outside the model.

  Under \<^verbatim>\<open>re.IGNORECASE\<close> an ordinary character of the pattern matches the characters
  of the subject that equal it up to case. Which characters these are is a table of
  the \<^verbatim>\<open>re\<close> module over all of Unicode: the comparison \<open>ieq\<close> (pattern character
  first) is a parameter of the model. A dot matches every character but the line
  feed.
\<close>

datatype atom =
    Literal code_point
  | Any_char

definition re_special :: "code_point list" where
  "re_special = str ''.^$*+?{}[]|()'' @ [0x5C]"

fun re_compile :: "pystr \<Rightarrow> atom list option" where
  "re_compile [] = Some []"
| "re_compile (c # cs) =
     (if c = 0x2E then map_option ((#) Any_char) (re_compile cs)
      else if c \<in> set re_special then None
      else map_option ((#) (Literal c)) (re_compile cs))"

fun atom_matches :: "(code_point \<Rightarrow> code_point \<Rightarrow> bool) \<Rightarrow> atom \<Rightarrow> code_point \<Rightarrow> bool" where
  "atom_matches ieq (Literal c) d = ieq c d"
| "atom_matches ieq Any_char d = (d \<noteq> 0x0A)"

fun match_at :: "(code_point \<Rightarrow> code_point \<Rightarrow> bool) \<Rightarrow> atom list \<Rightarrow> pystr \<Rightarrow> bool" where
  "match_at ieq [] s = True"
| "match_at ieq (a # as) [] = False"
| "match_at ieq (a # as) (d # ds) = (atom_matches ieq a d \<and> match_at ieq as ds)"

fun re_search :: "(code_point \<Rightarrow> code_point \<Rightarrow> bool) \<Rightarrow> atom list \<Rightarrow> pystr \<Rightarrow> bool" where
  "re_search ieq p [] = match_at ieq p []"
| "re_search ieq p (d # ds) = (match_at ieq p (d # ds) \<or> re_search ieq p ds)"

subsection \<open>The CSV file and pandas frames\<close>

record attendance =
  Name :: pystr
  Time :: pystr
  Date :: pystr

text \<open>
  The content of a file, by what \<^verbatim>\<open>read_csv\<close> makes of it. A file that the reader
  splits into lines of at most three fields is the table of these fields, the
  header line first (a shorter line reads as one with empty fields at its end). A
  file on which the reader raises (bytes that are not text, a line with more fields
  than the lines before it) is \<open>Malformed\<close>. The file system maps a path to the
  content of the file there.
\<close>

type_synonym csv_line = "pystr \<times> pystr \<times> pystr"

datatype csv_content =
    Malformed
  | Table "csv_line list"

type_synonym filesystem = "string \<Rightarrow> csv_content option"

definition csv_file :: string where
  "csv_file = ''Attendance.csv''"

definition header :: csv_line where
  "header = (str ''Name'', str ''Time'', str ''Date'')"

text \<open>
  \<^verbatim>\<open>read_csv\<close> reads a field as missing (NaN) when it is empty or one of the
  default null tokens of pandas.
\<close>

definition na_values :: "pystr list" where
  "na_values =
     map str
       ['''', ''#N/A'', ''#N/A N/A'', ''#NA'', ''-1.#IND'', ''-1.#QNAN'', ''-NaN'',
        ''-nan'', ''1.#IND'', ''1.#QNAN'', ''<NA>'', ''N/A'', ''NA'', ''NULL'',
        ''NaN'', ''None'', ''n/a'', ''nan'', ''null'']"

definition is_na :: "pystr \<Rightarrow> bool" where
  "is_na s = (s \<in> set na_values)"

definition is_bool :: "pystr \<Rightarrow> bool" where
  "is_bool s =
     (s \<in> set (map str [''True'', ''TRUE'', ''true'', ''False'', ''FALSE'', ''false'']))"

text \<open>
  \<^verbatim>\<open>read_csv\<close> infers the type of each column from its fields that are not
  missing: a column whose fields all convert to numbers becomes a numeric column,
  one whose fields all read as booleans a boolean column, and any other column keeps
  its fields as strings (dtype object). Whether the fields of a column convert to
  numbers is the number parser's decision: the test \<open>numeric\<close>, applied to the
  fields of the column that are not missing, is a parameter of the model. A column
  of a frame without rows has dtype object.
\<close>

datatype dtype =
    Object
  | Not_object

definition infer_dtype :: "(pystr list \<Rightarrow> bool) \<Rightarrow> pystr list \<Rightarrow> dtype" where
  "infer_dtype numeric col =
     (let present = filter (\<lambda>v. \<not> is_na v) col
      in if col = [] then Object
         else if numeric present \<or> list_all is_bool present then Not_object
         else Object)"

type_synonym cell = "pystr option"

record frame =
  name_dtype :: dtype
  time_dtype :: dtype
  date_dtype :: dtype
  frame_rows :: "(cell \<times> cell \<times> cell) list"

definition read_field :: "pystr \<Rightarrow> cell" where
  "read_field s = (if is_na s then None else Some s)"

text \<open>
  \<^verbatim>\<open>pd.read_csv(csv_file, names=['Name', 'Time', 'Date'], skiprows=1)\<close>: the first
  line is skipped, the columns are assigned by position.
\<close>

definition read_csv :: "(pystr list \<Rightarrow> bool) \<Rightarrow> csv_content \<Rightarrow> error + frame" where
  "read_csv numeric content =
     (case content of
        Malformed \<Rightarrow> Inl ParserError
      | Table ls \<Rightarrow>
          (let body = drop 1 ls
           in Inr \<lparr> name_dtype = infer_dtype numeric (map fst body),
                    time_dtype = infer_dtype numeric (map (fst \<circ> snd) body),
                    date_dtype = infer_dtype numeric (map (snd \<circ> snd) body),
                    frame_rows =
                      map (\<lambda>(n, t, d). (read_field n, read_field t, read_field d)) body \<rparr>))"

text \<open>\<^verbatim>\<open>df.dropna()\<close>: the rows without a missing field; the columns keep their types.\<close>

definition dropna :: "frame \<Rightarrow> frame" where
  "dropna df =
     df\<lparr> frame_rows :=
          filter (\<lambda>(n, t, d). n \<noteq> None \<and> t \<noteq> None \<and> d \<noteq> None) (frame_rows df) \<rparr>"

text \<open>
  Lines 107-109: \<^verbatim>\<open>.str\<close> raises AttributeError on a column that does not hold
  strings; on a column of strings \<^verbatim>\<open>.str.strip()\<close> strips every field.
\<close>

definition str_strip_columns :: "frame \<Rightarrow> error + frame" where
  "str_strip_columns df =
     (if name_dtype df \<noteq> Object then Inl AttributeError
      else if time_dtype df \<noteq> Object then Inl AttributeError
      else if date_dtype df \<noteq> Object then Inl AttributeError
      else Inr (df\<lparr> frame_rows :=
                  map (\<lambda>(n, t, d). (map_option strip n, map_option strip t, map_option strip d))
                    (frame_rows df) \<rparr>))"

text \<open>The rows of a frame as records; a frame that went through \<open>dropna\<close> has no other rows.\<close>

definition record_of :: "cell \<times> cell \<times> cell \<Rightarrow> attendance option" where
  "record_of r =
     (case r of
        (Some n, Some t, Some d) \<Rightarrow> Some \<lparr> Name = n, Time = t, Date = d \<rparr>
      | _ \<Rightarrow> None)"

definition records :: "frame \<Rightarrow> attendance list" where
  "records df = List.map_filter record_of (frame_rows df)"

text \<open>
  The three columns of a table's body hold strings after \<^verbatim>\<open>read_csv\<close>: the condition
  under which lines 107-109 raise nothing.
\<close>

definition string_columns :: "(pystr list \<Rightarrow> bool) \<Rightarrow> csv_line list \<Rightarrow> bool" where
  "string_columns numeric body =
     (infer_dtype numeric (map fst body) = Object
      \<and> infer_dtype numeric (map (fst \<circ> snd) body) = Object
      \<and> infer_dtype numeric (map (snd \<circ> snd) body) = Object)"

text \<open>
  \<^verbatim>\<open>DataFrame.to_csv(index=False)\<close>: the header line, then one line for each row. A
  frame without rows writes the header line alone.
\<close>

definition to_csv :: "attendance list \<Rightarrow> csv_content" where
  "to_csv df = Table (header # map (\<lambda>r. (Name r, Time r, Date r)) df)"

subsection \<open>Loading (lines 90-114)\<close>

text \<open>
  The body of \<^verbatim>\<open>load_attendance_csv\<close> (what runs when \<^verbatim>\<open>st.cache_data\<close> has no
  fresh result): the file system after the call and the records returned.
\<close>

definition load_attendance_csv ::
  "(pystr list \<Rightarrow> bool) \<Rightarrow> filesystem \<Rightarrow> filesystem \<times> attendance list" where
  "load_attendance_csv numeric fs =
     (case fs csv_file of
        None \<Rightarrow> (fs(csv_file \<mapsto> to_csv []), [])
      | Some content \<Rightarrow>
          (fs,
           case read_csv numeric content of
             Inl e \<Rightarrow> []
           | Inr df \<Rightarrow>
               (case str_strip_columns (dropna df) of
                  Inl e \<Rightarrow> []
                | Inr df' \<Rightarrow> records df')))"

subsection \<open>View models of main\<close>

text \<open>
  Lines 213-220: the history filter. The result is \<open>None\<close> where the search string
  is a pattern outside the modelled fragment of regular expressions.
\<close>

definition filtered_df ::
  "(code_point \<Rightarrow> code_point \<Rightarrow> bool) \<Rightarrow> pystr \<Rightarrow> pystr \<Rightarrow> attendance list
     \<Rightarrow> attendance list option" where
  "filtered_df ieq search_name selected_date df =
     (case (if search_name \<noteq> []
            then (case re_compile search_name of
                    None \<Rightarrow> None
                  | Some p \<Rightarrow> Some (filter (\<lambda>r. re_search ieq p (Name r)) df))
            else Some df) of
        None \<Rightarrow> None
      | Some by_name \<Rightarrow>
          Some (if selected_date \<noteq> str ''Semua''
                then filter (\<lambda>r. Date r = selected_date) by_name
                else by_name))"

text \<open>Line 235: the exported file.\<close>

definition csv_data :: "attendance list \<Rightarrow> csv_content" where
  "csv_data view = to_csv view"

text \<open>
  \<^verbatim>\<open>Series.unique()\<close>: the distinct values in the order of their first appearance.
\<close>

definition unique :: "'a list \<Rightarrow> 'a list" where
  "unique xs = rev (remdups (rev xs))"

text \<open>Lines 210-211: the entries of the date box, the entry for all dates first.\<close>

definition date_options :: "attendance list \<Rightarrow> pystr list" where
  "date_options df = str ''Semua'' # unique (map Date df)"





subsection \<open>Traces\<close>

text \<open>The events that a run pushes into the buffer, oldest first (line 63).\<close>

fun pushed_by :: "event \<Rightarrow> json list" where
  "pushed_by (Message now p) = (case prepare_event now p of Inr data \<Rightarrow> [data] | Inl e \<Rightarrow> [])"
| "pushed_by (Render outcome) = []"
| "pushed_by (Connack rc) = []"
| "pushed_by (Disconnect rc) = []"

definition pushed :: "event list \<Rightarrow> json list" where
  "pushed es = concat (map pushed_by es)"

subsection \<open>What the specification says, in its own words\<close>

text \<open>
  The definitions of this subsection follow the specification, not the code: the
  theorems below compare the code with them.

  A string is trimmed when it neither starts nor ends with whitespace.
\<close>

definition trimmed :: "pystr \<Rightarrow> bool" where
  "trimmed s = (s = [] \<or> (\<not> isspace (hd s) \<and> \<not> isspace (last s)))"

text \<open>
  The lines of a table without a null field, every field trimmed: what loading
  returns according to the specification.
\<close>

definition nonblank_rows_trimmed :: "csv_line list \<Rightarrow> attendance list" where
  "nonblank_rows_trimmed body =
     map (\<lambda>(n, t, d). \<lparr> Name = strip n, Time = strip t, Date = strip d \<rparr>)
       (filter (\<lambda>(n, t, d). \<not> is_na n \<and> \<not> is_na t \<and> \<not> is_na d) body)"

text \<open>
  \<open>icontains ieq s name\<close>: \<open>name\<close> contains \<open>s\<close> as a substring, the case of letters
  aside: some stretch of \<open>name\<close> equals \<open>s\<close> character by character up to case.
\<close>

definition icontains :: "(code_point \<Rightarrow> code_point \<Rightarrow> bool) \<Rightarrow> pystr \<Rightarrow> pystr \<Rightarrow> bool" where
  "icontains ieq s name = (\<exists>before w after. name = before @ w @ after \<and> list_all2 ieq s w)"

definition name_filter_spec ::
  "(code_point \<Rightarrow> code_point \<Rightarrow> bool) \<Rightarrow> pystr \<Rightarrow> attendance list \<Rightarrow> attendance list" where
  "name_filter_spec ieq search_name df = filter (\<lambda>r. icontains ieq search_name (Name r)) df"

definition date_filter_spec :: "pystr \<Rightarrow> attendance list \<Rightarrow> attendance list" where
  "date_filter_spec selected_date df = filter (\<lambda>r. Date r = selected_date) df"


subsection \<open>Instances of the parameters for the examples\<close>

text \<open>
  The unsigned decimal integers are strings that every number parser reads as
  numbers: a column of them is numeric. On ASCII letters the comparison of
  \<^verbatim>\<open>re.IGNORECASE\<close> is the equality of the lower-case letters. A stable sort by
  descending count and the reverse of a stable sort by ascending count are two sorts
  that put counts in descending order; they differ on equal counts.
\<close>

definition plain_decimal :: "pystr \<Rightarrow> bool" where
  "plain_decimal s = (s \<noteq> [] \<and> list_all (\<lambda>c. 0x30 \<le> c \<and> c \<le> 0x39) s)"

definition ascii_lower :: "code_point \<Rightarrow> code_point" where
  "ascii_lower c = (if 0x41 \<le> c \<and> c \<le> 0x5A then c + 0x20 else c)"

definition ascii_ieq :: "code_point \<Rightarrow> code_point \<Rightarrow> bool" where
  "ascii_ieq c d = (ascii_lower c = ascii_lower d)"



section \<open>Properties\<close>

subsection \<open>The live-event buffer\<close>

lemma appendleft_take_rev:
  "foldl (\<lambda>d e. appendleft e d) [] es = take maxlen (rev es)"
proof (induction es rule: rev_induct)
  case Nil
  show ?case by simp
next
  case (snoc e es)
  have "take n (e # take n (rev es)) = take n (e # rev es)" for n
    by (cases n) simp_all
  with snoc show ?case by (simp add: appendleft_def)
qed

lemma run_snoc: "run s (es @ [e]) = step (run s es) e"
  by (simp add: run_def)

lemma run_Nil: "run s [] = s"
  by (simp add: run_def)

lemma run_Cons: "run s (e # es) = run (step s e) es"
  by (simp add: run_def)

lemma mqtt_messages_step:
  "mqtt_messages (step s e) = foldl (\<lambda>d x. appendleft x d) (mqtt_messages s) (pushed_by e)"
  by (cases e) (simp_all add: setup_mqtt_def on_connect_def on_disconnect_def on_message_def
      Let_def split: option.splits connect_outcome.splits sum.splits)

lemma mqtt_messages_run:
  "mqtt_messages (run s es) = foldl (\<lambda>d x. appendleft x d) (mqtt_messages s) (pushed es)"
  by (induction es rule: rev_induct) (simp_all add: run_snoc mqtt_messages_step pushed_def run_def)

text \<open>
  C2. Whatever happens to a session, its buffer holds the 50 most recently pushed
  events, the newest first: it is the first 50 elements of the reversed sequence of
  pushes, so its length is the number of pushes up to 50, and a push into a full
  buffer drops the oldest event. After the pushes A, B, C a snapshot reads C, B, A.
\<close>

theorem live_buffer_holds_newest_fifty:
  "mqtt_messages (run (init_state t0) es) = take 50 (rev (pushed es))
   \<and> length (mqtt_messages (run (init_state t0) es)) = min 50 (length (pushed es))
   \<and> foldl (\<lambda>d x. appendleft x d) [] [A, B, C] = [C, B, A]"
proof -
  have "mqtt_messages (run (init_state t0) es) = take maxlen (rev (pushed es))"
    by (simp add: mqtt_messages_run init_state_def appendleft_take_rev)
  then have newest: "mqtt_messages (run (init_state t0) es) = take 50 (rev (pushed es))"
    by (simp add: maxlen_def)
  have abc: "foldl (\<lambda>d x. appendleft x d) [] [A, B, C] = [C, B, A]"
    by (simp add: appendleft_def maxlen_def)
  from newest abc show ?thesis by simp
qed

theorem live_buffer_witness:
  "mqtt_messages (run (init_state ''t0'')
      [Message ''t1'' (Json_text (JObj [(''name'', JStr ''A'')])),
       Message ''t2'' Not_json,
       Message ''t3'' (Json_text (JObj [(''name'', JStr ''B'')])),
       Connack 0,
       Message ''t4'' (Json_text (JObj [(''name'', JStr ''C''), (''received_at'', JStr ''x'')]))])
   = [JObj [(''name'', JStr ''C''), (''received_at'', JStr ''x'')],
      JObj [(''name'', JStr ''B''), (''received_at'', JStr ''t3'')],
      JObj [(''name'', JStr ''A''), (''received_at'', JStr ''t1'')]]"
  using live_buffer_holds_newest_fifty [THEN conjunct1, of "''t0''"
      "[Message ''t1'' (Json_text (JObj [(''name'', JStr ''A'')])),
        Message ''t2'' Not_json,
        Message ''t3'' (Json_text (JObj [(''name'', JStr ''B'')])),
        Connack 0,
        Message ''t4'' (Json_text (JObj [(''name'', JStr ''C''), (''received_at'', JStr ''x'')]))]"]
  by (simp add: pushed_def prepare_event_def decode_loads_def py_in_def py_setitem_def
      dict_setitem_def)

subsection \<open>The session: client, connection flag\<close>

lemmas callback_defs = setup_mqtt_def on_connect_def on_disconnect_def on_message_def

lemma step_keeps_client:
  "mqtt_client s = Some c \<Longrightarrow>
     mqtt_client (step s e) = Some c \<and> connect_calls (step s e) = connect_calls s
     \<and> clients_constructed (step s e) = clients_constructed s
     \<and> loops_started (step s e) = loops_started s"
  by (cases e) (simp_all add: callback_defs split: sum.splits)

lemma run_keeps_client:
  "mqtt_client s = Some c \<Longrightarrow>
     mqtt_client (run s es) = Some c \<and> connect_calls (run s es) = connect_calls s
     \<and> clients_constructed (run s es) = clients_constructed s
     \<and> loops_started (run s es) = loops_started s"
proof (induction es arbitrary: s)
  case Nil
  then show ?case by (simp add: run_Nil)
next
  case (Cons e es)
  from Cons.prems have "mqtt_client (step s e) = Some c" by (simp add: step_keeps_client)
  from Cons.IH [OF this] Cons.prems show ?case
    by (simp add: run_Cons step_keeps_client)
qed

lemma step_loops:
  "loops_started s = (case mqtt_client s of None \<Rightarrow> 0 | Some c \<Rightarrow> 1) \<Longrightarrow>
   loops_started (step s e) = (case mqtt_client (step s e) of None \<Rightarrow> 0 | Some c \<Rightarrow> 1)"
  by (cases e) (simp_all add: callback_defs Let_def split: sum.splits option.splits connect_outcome.splits)

lemma run_loops:
  "loops_started s = (case mqtt_client s of None \<Rightarrow> 0 | Some c \<Rightarrow> 1) \<Longrightarrow>
   loops_started (run s es) = (case mqtt_client (run s es) of None \<Rightarrow> 0 | Some c \<Rightarrow> 1)"
  by (induction es arbitrary: s) (simp_all add: run_Nil run_Cons step_loops)

lemma step_constructed:
  "clients_constructed s = (case mqtt_client s of None \<Rightarrow> 0 | Some c \<Rightarrow> 1) \<Longrightarrow>
   e \<noteq> Render Connect_raises \<Longrightarrow>
   clients_constructed (step s e) = (case mqtt_client (step s e) of None \<Rightarrow> 0 | Some c \<Rightarrow> 1)"
  by (cases e) (simp_all add: callback_defs Let_def split: sum.splits option.splits connect_outcome.splits)

lemma run_constructed:
  "Render Connect_raises \<notin> set es \<Longrightarrow>
   clients_constructed s = (case mqtt_client s of None \<Rightarrow> 0 | Some c \<Rightarrow> 1) \<Longrightarrow>
   clients_constructed (run s es) = (case mqtt_client (run s es) of None \<Rightarrow> 0 | Some c \<Rightarrow> 1)"
proof (induction es arbitrary: s)
  case Nil
  then show ?case by (simp add: run_Nil)
next
  case (Cons e es)
  from Cons.prems have "e \<noteq> Render Connect_raises" by auto
  with Cons.prems have "clients_constructed (step s e) =
      (case mqtt_client (step s e) of None \<Rightarrow> 0 | Some c \<Rightarrow> 1)"
    by (simp add: step_constructed del: step.simps)
  with Cons.IH [of "step s e"] Cons.prems show ?case
    by (simp add: run_Cons del: step.simps)
qed

lemma connected_step:
  "mqtt_connected (step s e) =
     (case e of
        Connack rc \<Rightarrow> rc = 0
      | Disconnect rc \<Rightarrow> False
      | Render outcome \<Rightarrow> mqtt_connected s \<and> \<not> (mqtt_client s = None \<and> outcome = Connect_raises)
      | Message now p \<Rightarrow> mqtt_connected s)"
  by (cases e) (auto simp add: callback_defs Let_def split: sum.splits option.splits connect_outcome.splits)

lemma connected_run_needs_connack:
  "mqtt_connected (run s es) \<Longrightarrow> mqtt_connected s \<or> Connack 0 \<in> set es"
proof (induction es rule: rev_induct)
  case Nil
  then show ?case by (simp add: run_Nil)
next
  case (snoc e es)
  then show ?case
    by (cases e) (auto simp add: run_snoc connected_step simp del: step.simps)
qed

subsection \<open>Claims about the session\<close>

text \<open>
  C6, as the code has it. A message whose payload fails to decode (the bytes are
  not UTF-8, or the text is not JSON) is dropped: \<open>on_message\<close> returns the session with one more line
  printed and nothing else changed, so the buffer and its contents are as before.
  The handler is a total function of the session: no exception leaves it. The
  buffer of every later run is the one it would be had the message never arrived,
  and a later message that decodes to a JSON object is pushed to the front of the
  buffer, stamped with its time of receipt when it carries none.
\<close>

theorem decode_failure_drops_message:
  assumes "decode_loads p = Inl e"
  shows "on_message now p s = s\<lparr> console := console s @ [Error_processing_message e] \<rparr>
    \<and> mqtt_messages (on_message now p s) = mqtt_messages s
    \<and> mqtt_messages (run (on_message now p s) es) = mqtt_messages (run s es)
    \<and> mqtt_messages (on_message now' (Json_text (JObj kvs)) (on_message now p s)) =
        appendleft
          (JObj (if ''received_at'' \<in> set (map fst kvs) then kvs
                 else kvs @ [(''received_at'', JStr now')]))
          (mqtt_messages s)"
proof -
  from assms have dropped:
    "on_message now p s = s\<lparr> console := console s @ [Error_processing_message e] \<rparr>"
    by (simp add: on_message_def prepare_event_def)
  then have same: "mqtt_messages (on_message now p s) = mqtt_messages s"
    by simp
  have later: "mqtt_messages (run (on_message now p s) es) = mqtt_messages (run s es)"
    by (simp add: mqtt_messages_run same)
  have "mqtt_messages (on_message now' (Json_text (JObj kvs)) s') =
        appendleft
          (JObj (if ''received_at'' \<in> set (map fst kvs) then kvs
                 else kvs @ [(''received_at'', JStr now')]))
          (mqtt_messages s')" for s'
    by (simp add: on_message_def prepare_event_def decode_loads_def py_in_def py_setitem_def
        dict_setitem_def)
  with dropped same later show ?thesis by simp
qed

theorem decode_failure_witness:
  "decode_loads Not_json = Inl JSONDecodeError
   \<and> mqtt_messages (on_message ''t1'' Not_json (init_state ''t0'')) = []
   \<and> mqtt_messages (on_message ''t2'' (Json_text (JObj [(''name'', JStr ''A'')]))
        (on_message ''t1'' Not_json (init_state ''t0'')))
       = [JObj [(''name'', JStr ''A''), (''received_at'', JStr ''t2'')]]"
  using decode_failure_drops_message [of Not_json JSONDecodeError "''t1''" "init_state ''t0''" "[]"
      "''t2''" "[(''name'', JStr ''A'')]"]
  by (simp add: decode_loads_def init_state_def appendleft_def maxlen_def on_message_def
      prepare_event_def py_in_def py_setitem_def dict_setitem_def)

text \<open>
  C6 as stated fails for a later message whose payload decodes, but not to a JSON
  object: the number 42 is valid JSON, the test of line 59 raises TypeError on it,
  and the handler drops the message as it drops an undecodable one.
\<close>

theorem decoded_number_counterexample:
  "decode_loads (Json_text (JNum ''42'')) = Inr (JNum ''42'')
   \<and> mqtt_messages (on_message ''t2'' (Json_text (JNum ''42''))
        (on_message ''t1'' Not_json (init_state ''t0''))) = []
   \<and> console (on_message ''t2'' (Json_text (JNum ''42''))
        (on_message ''t1'' Not_json (init_state ''t0'')))
       = [Error_processing_message JSONDecodeError, Error_processing_message TypeError]"
  by (simp add: decode_loads_def init_state_def on_message_def prepare_event_def py_in_def)

text \<open>
  C8. The session starts disconnected. A connect callback with return code 0 sets
  the flag and subscribes to the fixed topic; a connect callback with any other
  code and every disconnect callback clear it. From a disconnected session the one
  event that sets the flag is the successful connect callback; from a connected one
  the flag is cleared by a disconnect callback, a failed connect callback or a
  failed setup, and by nothing else. The machine has the two states only, so every
  transition is one of these two edges or stays where it is; and a run that ends
  connected contains a successful connect callback.
\<close>

theorem connection_state_transitions:
  "\<not> mqtt_connected (init_state t0)
   \<and> mqtt_connected (on_connect 0 s) \<and> MQTT_TOPIC \<in> set (subscriptions (on_connect 0 s))
   \<and> (rc \<noteq> 0 \<longrightarrow> \<not> mqtt_connected (on_connect rc s))
   \<and> \<not> mqtt_connected (on_disconnect rc s)
   \<and> (\<not> mqtt_connected s \<longrightarrow> (mqtt_connected (step s e) \<longleftrightarrow> e = Connack 0))
   \<and> (mqtt_connected s \<longrightarrow>
        (\<not> mqtt_connected (step s e) \<longleftrightarrow>
           (\<exists>rc'. e = Disconnect rc' \<or> (e = Connack rc' \<and> rc' \<noteq> 0))
           \<or> (e = Render Connect_raises \<and> mqtt_client s = None)))
   \<and> (mqtt_connected (run (init_state t0) es) \<longrightarrow> Connack 0 \<in> set es)"
proof -
  have init: "\<not> mqtt_connected (init_state t0)"
    by (simp add: init_state_def)
  have ok: "mqtt_connected (on_connect 0 s) \<and> MQTT_TOPIC \<in> set (subscriptions (on_connect 0 s))"
    by (simp add: on_connect_def)
  have refused: "rc \<noteq> 0 \<longrightarrow> \<not> mqtt_connected (on_connect rc s)"
    by (simp add: on_connect_def)
  have lost: "\<not> mqtt_connected (on_disconnect rc s)"
    by (simp add: on_disconnect_def)
  have enter: "\<not> mqtt_connected s \<longrightarrow> (mqtt_connected (step s e) \<longleftrightarrow> e = Connack 0)"
    by (cases e) (auto simp add: connected_step simp del: step.simps)
  have leave: "mqtt_connected s \<longrightarrow>
        (\<not> mqtt_connected (step s e) \<longleftrightarrow>
           (\<exists>rc'. e = Disconnect rc' \<or> (e = Connack rc' \<and> rc' \<noteq> 0))
           \<or> (e = Render Connect_raises \<and> mqtt_client s = None))"
    by (cases e) (auto simp add: connected_step simp del: step.simps)
  have trace: "mqtt_connected (run (init_state t0) es) \<longrightarrow> Connack 0 \<in> set es"
    using connected_run_needs_connack [of "init_state t0" es] init by blast
  from init ok refused lost enter leave trace show ?thesis by blast
qed

theorem connection_state_witness:
  "\<not> mqtt_connected (init_state ''t0'')
   \<and> mqtt_connected (run (init_state ''t0'') [Render Connect_returns, Connack 0])
   \<and> subscriptions (run (init_state ''t0'') [Render Connect_returns, Connack 0]) = [MQTT_TOPIC]
   \<and> \<not> mqtt_connected (run (init_state ''t0'') [Render Connect_returns, Connack 0, Disconnect 7])
   \<and> \<not> mqtt_connected (run (init_state ''t0'') [Render Connect_returns, Connack 5])
   \<and> Connack 0 \<in> set [Render Connect_returns, Connack 0]"
  using connection_state_transitions [of "''t0''" "init_state ''t0''" 5 "Connack 0"
      "[Render Connect_returns, Connack 0]"]
  by (simp add: run_def callback_defs init_state_def)

text \<open>
  C9. \<open>setup_mqtt\<close> on a session that holds a client returns the session as it is:
  no entry changes, no client is constructed, \<open>connect\<close> is not called. A second
  setup after a successful one is therefore the first. In every run, a client once
  stored stays the stored client and no further instance is constructed after it,
  and at most one network loop is ever started. Where no \<open>connect\<close> raises, one
  instance at most is ever constructed; an instance whose \<open>connect\<close> raised is
  dropped before any client is stored (C10).
\<close>

theorem setup_mqtt_is_idempotent:
  "(mqtt_client s \<noteq> None \<longrightarrow> setup_mqtt outcome s = s)
   \<and> setup_mqtt outcome (setup_mqtt Connect_returns s) = setup_mqtt Connect_returns s
   \<and> (mqtt_client (run (init_state t0) es) = Some c \<longrightarrow>
        mqtt_client (run (init_state t0) (es @ es')) = Some c
        \<and> clients_constructed (run (init_state t0) (es @ es')) =
            clients_constructed (run (init_state t0) es))
   \<and> loops_started (run (init_state t0) es) \<le> 1
   \<and> (Render Connect_raises \<notin> set es \<longrightarrow> clients_constructed (run (init_state t0) es) \<le> 1)"
proof -
  have noop: "mqtt_client s \<noteq> None \<longrightarrow> setup_mqtt outcome s = s"
    by (auto simp add: setup_mqtt_def)
  have "mqtt_client (setup_mqtt Connect_returns s) \<noteq> None"
    by (simp add: setup_mqtt_def Let_def split: option.splits)
  then have twice: "setup_mqtt outcome (setup_mqtt Connect_returns s) = setup_mqtt Connect_returns s"
    by (auto simp add: setup_mqtt_def [of outcome])
  have kept: "mqtt_client (run (init_state t0) es) = Some c \<longrightarrow>
        mqtt_client (run (init_state t0) (es @ es')) = Some c
        \<and> clients_constructed (run (init_state t0) (es @ es')) =
            clients_constructed (run (init_state t0) es)"
    using run_keeps_client [of "run (init_state t0) es" c es']
    by (simp add: run_def)
  have "loops_started (run (init_state t0) es) =
          (case mqtt_client (run (init_state t0) es) of None \<Rightarrow> 0 | Some c \<Rightarrow> 1)"
    by (rule run_loops) (simp add: init_state_def)
  then have one: "loops_started (run (init_state t0) es) \<le> 1"
    by (simp split: option.splits)
  have "Render Connect_raises \<notin> set es \<longrightarrow>
          clients_constructed (run (init_state t0) es) =
            (case mqtt_client (run (init_state t0) es) of None \<Rightarrow> 0 | Some c \<Rightarrow> 1)"
    by (rule impI, rule run_constructed) (simp_all add: init_state_def)
  then have single: "Render Connect_raises \<notin> set es \<longrightarrow>
          clients_constructed (run (init_state t0) es) \<le> 1"
    by (simp split: option.splits)
  from noop twice kept one single show ?thesis by blast
qed

theorem setup_mqtt_idempotent_witness:
  "mqtt_client (run (init_state ''t0'') [Render Connect_returns]) = Some 1
   \<and> setup_mqtt Connect_raises (run (init_state ''t0'') [Render Connect_returns])
       = run (init_state ''t0'') [Render Connect_returns]
   \<and> mqtt_client (run (init_state ''t0'') ([Render Connect_returns] @ [Disconnect 1, Render Connect_returns])) = Some 1
   \<and> clients_constructed (run (init_state ''t0'') ([Render Connect_returns] @ [Disconnect 1, Render Connect_returns])) = 1"
  using setup_mqtt_is_idempotent [of "run (init_state ''t0'') [Render Connect_returns]" Connect_raises
      "''t0''" "[Render Connect_returns]" 1 "[Disconnect 1, Render Connect_returns]"]
  by (simp add: run_def callback_defs init_state_def)

text \<open>
  C10. On a session without a client, a setup whose \<open>connect\<close> raises leaves the
  client reference unset and clears the connected flag, having called \<open>connect\<close>
  once; so \<open>n\<close> render cycles that all fail call \<open>connect\<close> \<open>n\<close> times and still
  leave the reference unset. A setup whose \<open>connect\<close> returns stores the client;
  from then on, whatever happens (disconnects included), the reference is that
  client and \<open>connect\<close> is never called again.
\<close>

theorem failed_connect_is_retried:
  "mqtt_client s = None \<longrightarrow>
     mqtt_client (setup_mqtt Connect_raises s) = None
     \<and> \<not> mqtt_connected (setup_mqtt Connect_raises s)
     \<and> connect_calls (setup_mqtt Connect_raises s) = Suc (connect_calls s)
     \<and> connect_calls (run s (replicate n (Render Connect_raises))) = connect_calls s + n
     \<and> mqtt_client (run s (replicate n (Render Connect_raises))) = None
     \<and> mqtt_client (setup_mqtt Connect_returns s) = Some (Suc (clients_constructed s))
     \<and> mqtt_client (run (setup_mqtt Connect_returns s) es) = Some (Suc (clients_constructed s))
     \<and> connect_calls (run (setup_mqtt Connect_returns s) es) = Suc (connect_calls s)"
proof
  assume none: "mqtt_client s = None"
  then have fail: "mqtt_client (setup_mqtt Connect_raises s) = None
     \<and> \<not> mqtt_connected (setup_mqtt Connect_raises s)
     \<and> connect_calls (setup_mqtt Connect_raises s) = Suc (connect_calls s)"
    by (simp add: setup_mqtt_def Let_def)
  have again: "mqtt_client s' = None \<Longrightarrow>
      connect_calls (run s' (replicate n (Render Connect_raises))) = connect_calls s' + n
      \<and> mqtt_client (run s' (replicate n (Render Connect_raises))) = None" for s'
  proof (induction n arbitrary: s')
    case 0
    then show ?case by (simp add: run_Nil)
  next
    case (Suc n)
    from Suc.prems have "mqtt_client (setup_mqtt Connect_raises s') = None"
      and "connect_calls (setup_mqtt Connect_raises s') = Suc (connect_calls s')"
      by (simp_all add: setup_mqtt_def Let_def)
    with Suc.IH [of "setup_mqtt Connect_raises s'"] show ?case
      by (simp add: run_Cons)
  qed
  from none have good: "mqtt_client (setup_mqtt Connect_returns s) = Some (Suc (clients_constructed s))"
    and calls: "connect_calls (setup_mqtt Connect_returns s) = Suc (connect_calls s)"
    by (simp_all add: setup_mqtt_def Let_def)
  from run_keeps_client [OF good, of es] calls
  have after: "mqtt_client (run (setup_mqtt Connect_returns s) es) = Some (Suc (clients_constructed s))
     \<and> connect_calls (run (setup_mqtt Connect_returns s) es) = Suc (connect_calls s)"
    by simp
  from fail again [OF none] good after
  show "mqtt_client (setup_mqtt Connect_raises s) = None
     \<and> \<not> mqtt_connected (setup_mqtt Connect_raises s)
     \<and> connect_calls (setup_mqtt Connect_raises s) = Suc (connect_calls s)
     \<and> connect_calls (run s (replicate n (Render Connect_raises))) = connect_calls s + n
     \<and> mqtt_client (run s (replicate n (Render Connect_raises))) = None
     \<and> mqtt_client (setup_mqtt Connect_returns s) = Some (Suc (clients_constructed s))
     \<and> mqtt_client (run (setup_mqtt Connect_returns s) es) = Some (Suc (clients_constructed s))
     \<and> connect_calls (run (setup_mqtt Connect_returns s) es) = Suc (connect_calls s)"
    by simp
qed

theorem failed_connect_witness:
  "mqtt_client (init_state ''t0'') = None
   \<and> connect_calls (run (init_state ''t0'') (replicate 3 (Render Connect_raises))) = 3
   \<and> mqtt_client (run (init_state ''t0'') (replicate 3 (Render Connect_raises))) = None
   \<and> connect_calls (run (setup_mqtt Connect_returns (init_state ''t0''))
        [Disconnect 1, Render Connect_raises, Render Connect_returns]) = 1"
  using failed_connect_is_retried [of "init_state ''t0''" 3
      "[Disconnect 1, Render Connect_raises, Render Connect_returns]"]
  by (simp add: init_state_def)

subsection \<open>Loading and exporting\<close>

lemma dropWhile_fixed: "xs = [] \<or> \<not> P (hd xs) \<Longrightarrow> dropWhile P xs = xs"
  by (cases xs) auto

lemma last_dropWhile_keep: "dropWhile P xs \<noteq> [] \<Longrightarrow> last (dropWhile P xs) = last xs"
  by (induction xs) (auto split: if_splits)

lemma trimmed_strip: "trimmed (strip s)"
proof -
  define t where "t = dropWhile isspace s"
  define u where "u = dropWhile isspace (rev t)"
  have s: "strip s = rev u" by (simp add: strip_def t_def u_def)
  show ?thesis
  proof (cases "u = []")
    case True
    with s show ?thesis by (simp add: trimmed_def)
  next
    case False
    then have "\<not> isspace (hd u)" unfolding u_def by (rule hd_dropWhile)
    moreover from False have "last u = last (rev t)"
      unfolding u_def by (rule last_dropWhile_keep)
    moreover from False have "t \<noteq> []" by (auto simp: u_def)
    then have "\<not> isspace (hd t)" unfolding t_def by (rule hd_dropWhile)
    ultimately show ?thesis using False s \<open>t \<noteq> []\<close>
      by (simp add: trimmed_def last_rev hd_rev)
  qed
qed

lemma strip_trimmed:
  assumes "trimmed s"
  shows "strip s = s"
proof (cases "s = []")
  case True
  then show ?thesis by (simp add: strip_def)
next
  case False
  with assms have h: "\<not> isspace (hd s)" and l: "\<not> isspace (last s)"
    by (simp_all add: trimmed_def)
  from False h have 1: "dropWhile isspace s = s" by (simp add: dropWhile_fixed)
  from False l have 2: "dropWhile isspace (rev s) = rev s"
    by (simp add: dropWhile_fixed hd_rev)
  show ?thesis by (simp add: strip_def 1 2)
qed

lemma records_of_cleaned:
  "List.map_filter record_of
     (map (\<lambda>(n, t, d). (map_option strip n, map_option strip t, map_option strip d))
        (filter (\<lambda>(n, t, d). n \<noteq> None \<and> t \<noteq> None \<and> d \<noteq> None)
           (map (\<lambda>(n, t, d). (read_field n, read_field t, read_field d)) body)))
   = nonblank_rows_trimmed body"
  by (induction body)
    (auto simp add: nonblank_rows_trimmed_def List.map_filter_simps record_of_def read_field_def)

lemma load_table:
  assumes "fs csv_file = Some (Table ls)"
  shows "load_attendance_csv numeric fs =
           (fs, if string_columns numeric (drop 1 ls) then nonblank_rows_trimmed (drop 1 ls) else [])"
  using assms records_of_cleaned [of "drop 1 ls"]
  by (simp add: load_attendance_csv_def read_csv_def str_strip_columns_def dropna_def
      records_def string_columns_def Let_def)

lemma trimmed_nonblank_rows:
  "r \<in> set (nonblank_rows_trimmed body) \<Longrightarrow> trimmed (Name r) \<and> trimmed (Time r) \<and> trimmed (Date r)"
  by (auto simp add: nonblank_rows_trimmed_def trimmed_strip)

lemma load_trimmed:
  "r \<in> set (snd (load_attendance_csv numeric fs)) \<Longrightarrow>
     trimmed (Name r) \<and> trimmed (Time r) \<and> trimmed (Date r)"
proof (cases "fs csv_file")
  case None
  assume "r \<in> set (snd (load_attendance_csv numeric fs))"
  with None show ?thesis by (simp add: load_attendance_csv_def)
next
  case (Some content)
  assume r: "r \<in> set (snd (load_attendance_csv numeric fs))"
  show ?thesis
  proof (cases content)
    case Malformed
    with Some r show ?thesis by (simp add: load_attendance_csv_def read_csv_def)
  next
    case (Table ls)
    with Some r show ?thesis
      by (auto simp add: load_table dest: trimmed_nonblank_rows split: if_splits)
  qed
qed

text \<open>
  C1, as the code has it. Where the file is a table whose three columns all read
  as strings, loading returns the lines after the header that have no null field (a
  field is null when it is empty or a null token of the reader, such as NA), in
  their order, with every field stripped of the whitespace of Python, and leaves the
  file as it is. Where a column reads as numbers or as booleans the cleaning raises,
  where the file is malformed the reader raises, and loading returns the empty
  sequence. Every field of every record returned is trimmed; a field of whitespace
  only is not null, and is returned as the empty string.
\<close>

theorem load_excludes_null_rows_and_trims:
  "(fs csv_file = Some (Table ls) \<longrightarrow>
      load_attendance_csv numeric fs =
        (fs, if string_columns numeric (drop 1 ls) then nonblank_rows_trimmed (drop 1 ls) else []))
   \<and> (fs csv_file = Some Malformed \<longrightarrow> load_attendance_csv numeric fs = (fs, []))
   \<and> (\<forall>r \<in> set (snd (load_attendance_csv numeric fs)).
         trimmed (Name r) \<and> trimmed (Time r) \<and> trimmed (Date r))"
proof -
  have rejected: "fs csv_file = Some Malformed \<longrightarrow> load_attendance_csv numeric fs = (fs, [])"
    by (simp add: load_attendance_csv_def read_csv_def)
  with load_table [of fs ls numeric] load_trimmed [of _ numeric fs] show ?thesis
    by blast
qed

theorem load_excludes_null_rows_witness:
  "snd (load_attendance_csv (list_all plain_decimal)
      (Map.empty(csv_file \<mapsto> Table
         [(str ''Name'', str ''Time'', str ''Date''),
          (0xA0 # str ''Alice '' @ [0x3000], str ''08:00:01'', str ''04-November-2026''),
          (str ''Bob'', str '''', str ''04-November-2026''),
          (str ''Cici'', str ''NA'', str ''04-November-2026''),
          (str ''Dodi'', str ''  '', str ''04-November-2026 '')])))
   = [\<lparr> Name = str ''Alice'', Time = str ''08:00:01'', Date = str ''04-November-2026'' \<rparr>,
      \<lparr> Name = str ''Dodi'', Time = [], Date = str ''04-November-2026'' \<rparr>]"
  using load_excludes_null_rows_and_trims [of
      "Map.empty(csv_file \<mapsto> Table
         [(str ''Name'', str ''Time'', str ''Date''),
          (0xA0 # str ''Alice '' @ [0x3000], str ''08:00:01'', str ''04-November-2026''),
          (str ''Bob'', str '''', str ''04-November-2026''),
          (str ''Cici'', str ''NA'', str ''04-November-2026''),
          (str ''Dodi'', str ''  '', str ''04-November-2026 '')])"
      "[(str ''Name'', str ''Time'', str ''Date''),
          (0xA0 # str ''Alice '' @ [0x3000], str ''08:00:01'', str ''04-November-2026''),
          (str ''Bob'', str '''', str ''04-November-2026''),
          (str ''Cici'', str ''NA'', str ''04-November-2026''),
          (str ''Dodi'', str ''  '', str ''04-November-2026 '')]" "list_all plain_decimal"]
  by (simp add: string_columns_def infer_dtype_def is_na_def na_values_def is_bool_def
      plain_decimal_def nonblank_rows_trimmed_def strip_def isspace_def str_def)

text \<open>
  C1 as stated fails for a file whose rows have no blank field: one row with the
  time 830 makes the Time column numeric, line 108 raises AttributeError, and the
  handler of line 112 returns the empty frame instead of the row.
\<close>

theorem load_numeric_column_counterexample:
  "snd (load_attendance_csv (list_all plain_decimal)
      (Map.empty(csv_file \<mapsto> Table
         [(str ''Name'', str ''Time'', str ''Date''),
          (str ''Alice'', str ''830'', str ''04-November-2026'')])))
   \<noteq> nonblank_rows_trimmed [(str ''Alice'', str ''830'', str ''04-November-2026'')]"
  by (simp add: load_attendance_csv_def read_csv_def str_strip_columns_def dropna_def
      infer_dtype_def is_na_def na_values_def is_bool_def plain_decimal_def
      nonblank_rows_trimmed_def str_def)

text \<open>
  C7. When the file does not exist, loading creates it with the header line
  Name, Time, Date and nothing else, and returns the empty sequence; loading the
  file just created returns the empty sequence again and leaves it as it is.
\<close>

theorem load_creates_missing_file:
  "fs csv_file = None \<longrightarrow>
     load_attendance_csv numeric fs
       = (fs(csv_file \<mapsto> Table [(str ''Name'', str ''Time'', str ''Date'')]), [])
     \<and> load_attendance_csv numeric (fst (load_attendance_csv numeric fs))
         = (fst (load_attendance_csv numeric fs), [])"
  by (simp add: load_attendance_csv_def to_csv_def header_def read_csv_def str_strip_columns_def
      dropna_def infer_dtype_def records_def List.map_filter_simps)

theorem load_creates_missing_file_witness:
  "load_attendance_csv (list_all plain_decimal) Map.empty
     = (Map.empty(csv_file \<mapsto> Table [(str ''Name'', str ''Time'', str ''Date'')]), [])"
  using load_creates_missing_file [of Map.empty "list_all plain_decimal"] by simp

text \<open>
  C5, as the code has it. A view made of loaded records, none of whose fields is
  null for the reader (empty, or a null token such as NA) and whose three columns
  read as strings again, is reproduced by exporting it and loading the export.
\<close>

theorem export_reload_round_trip:
  assumes loaded: "set view \<subseteq> set (snd (load_attendance_csv numeric fs0))"
    and present: "\<forall>r \<in> set view. \<not> is_na (Name r) \<and> \<not> is_na (Time r) \<and> \<not> is_na (Date r)"
    and strings: "string_columns numeric (map (\<lambda>r. (Name r, Time r, Date r)) view)"
  shows "snd (load_attendance_csv numeric (fs(csv_file \<mapsto> csv_data view))) = view"
proof -
  let ?body = "map (\<lambda>r. (Name r, Time r, Date r)) view"
  have "load_attendance_csv numeric (fs(csv_file \<mapsto> csv_data view)) =
          (fs(csv_file \<mapsto> csv_data view),
           if string_columns numeric (drop 1 (header # ?body))
           then nonblank_rows_trimmed (drop 1 (header # ?body)) else [])"
    by (rule load_table) (simp add: csv_data_def to_csv_def)
  with strings have 1: "snd (load_attendance_csv numeric (fs(csv_file \<mapsto> csv_data view))) =
      nonblank_rows_trimmed ?body"
    by simp
  have "nonblank_rows_trimmed (map (\<lambda>r. (Name r, Time r, Date r)) v) = v"
    if "\<forall>r \<in> set v. \<not> is_na (Name r) \<and> \<not> is_na (Time r) \<and> \<not> is_na (Date r)"
      and "\<forall>r \<in> set v. trimmed (Name r) \<and> trimmed (Time r) \<and> trimmed (Date r)" for v
    using that
    by (induction v) (simp_all add: nonblank_rows_trimmed_def strip_trimmed)
  moreover from loaded have "\<forall>r \<in> set view. trimmed (Name r) \<and> trimmed (Time r) \<and> trimmed (Date r)"
    using load_trimmed by blast
  ultimately show ?thesis using present 1 by simp
qed

theorem export_reload_witness:
  "snd (load_attendance_csv (list_all plain_decimal)
      (Map.empty(csv_file \<mapsto> csv_data
         [\<lparr> Name = str ''Alice'', Time = str ''08:00:01'', Date = str ''04-November-2026'' \<rparr>])))
   = [\<lparr> Name = str ''Alice'', Time = str ''08:00:01'', Date = str ''04-November-2026'' \<rparr>]"
proof -
  let ?fs0 = "Map.empty(csv_file \<mapsto> Table
         [(str ''Name'', str ''Time'', str ''Date''),
          (str '' Alice '', str ''08:00:01'', str ''04-November-2026''),
          (str ''Bob'', str '''', str ''04-November-2026'')])"
  let ?view = "[\<lparr> Name = str ''Alice'', Time = str ''08:00:01'', Date = str ''04-November-2026'' \<rparr>]"
  have loaded: "set ?view \<subseteq> set (snd (load_attendance_csv (list_all plain_decimal) ?fs0))"
    by (simp add: load_attendance_csv_def read_csv_def str_strip_columns_def dropna_def
      infer_dtype_def is_na_def na_values_def is_bool_def plain_decimal_def
      records_def List.map_filter_simps record_of_def read_field_def strip_def isspace_def
      str_def)
  have present: "\<forall>r \<in> set ?view. \<not> is_na (Name r) \<and> \<not> is_na (Time r) \<and> \<not> is_na (Date r)"
    by (simp add: is_na_def na_values_def str_def)
  have strings: "string_columns (list_all plain_decimal) (map (\<lambda>r. (Name r, Time r, Date r)) ?view)"
    by (simp add: string_columns_def infer_dtype_def is_na_def na_values_def is_bool_def
        plain_decimal_def str_def)
  from export_reload_round_trip [OF loaded present strings, of Map.empty]
  show ?thesis .
qed

text \<open>
  C5 as stated fails for a view with an empty field. The line Alice with a time of
  two spaces is loaded (whitespace is not null) with the time stripped to the empty
  string; the export writes an empty field, which reads as null, and the second
  loading drops the record.
\<close>

theorem export_reload_counterexample:
  "snd (load_attendance_csv (list_all plain_decimal)
      (Map.empty(csv_file \<mapsto> Table
         [(str ''Name'', str ''Time'', str ''Date''),
          (str ''Alice'', str ''  '', str ''04-November-2026''),
          (str ''Bob'', str ''08:15:00'', str ''04-November-2026'')])))
     = [\<lparr> Name = str ''Alice'', Time = [], Date = str ''04-November-2026'' \<rparr>,
        \<lparr> Name = str ''Bob'', Time = str ''08:15:00'', Date = str ''04-November-2026'' \<rparr>]
   \<and> snd (load_attendance_csv (list_all plain_decimal)
      (Map.empty(csv_file \<mapsto> csv_data
         [\<lparr> Name = str ''Alice'', Time = [], Date = str ''04-November-2026'' \<rparr>,
          \<lparr> Name = str ''Bob'', Time = str ''08:15:00'', Date = str ''04-November-2026'' \<rparr>])))
     \<noteq> [\<lparr> Name = str ''Alice'', Time = [], Date = str ''04-November-2026'' \<rparr>,
        \<lparr> Name = str ''Bob'', Time = str ''08:15:00'', Date = str ''04-November-2026'' \<rparr>]"
  by (simp add: load_attendance_csv_def read_csv_def str_strip_columns_def dropna_def
      infer_dtype_def is_na_def na_values_def is_bool_def plain_decimal_def csv_data_def
      to_csv_def header_def
      records_def List.map_filter_simps record_of_def read_field_def strip_def isspace_def
      str_def)

subsection \<open>The history filter\<close>

lemma re_compile_plain:
  "\<forall>c \<in> set p. c \<notin> set re_special \<Longrightarrow> re_compile p = Some (map Literal p)"
  by (induction p) (auto simp add: re_special_def str_def)

lemma match_at_literals:
  "match_at ieq (map Literal p) s = (\<exists>w rest. s = w @ rest \<and> list_all2 ieq p w)"
proof (induction p arbitrary: s)
  case Nil
  show ?case by simp
next
  case (Cons c p)
  show ?case
  proof (cases s)
    case Nil
    then show ?thesis by simp
  next
    case (Cons d ds)
    have "(\<exists>w rest. d # ds = w @ rest \<and> list_all2 ieq (c # p) w)
        = (ieq c d \<and> (\<exists>w' rest. ds = w' @ rest \<and> list_all2 ieq p w'))"
      by (auto simp add: list_all2_Cons1 Cons_eq_append_conv)
    with Cons Cons.IH [of ds] show ?thesis by simp
  qed
qed

lemma re_search_literals:
  "re_search ieq (map Literal p) s = icontains ieq p s"
proof (induction s)
  case Nil
  show ?case by (simp add: icontains_def match_at_literals)
next
  case (Cons d ds)
  have "icontains ieq p (d # ds)
      = ((\<exists>w rest. d # ds = w @ rest \<and> list_all2 ieq p w) \<or> icontains ieq p ds)"
    unfolding icontains_def
    by (auto simp add: Cons_eq_append_conv) blast+
  with Cons show ?case by (simp add: match_at_literals)
qed

lemma icontains_empty: "icontains ieq [] name"
  unfolding icontains_def
  by (rule exI [of _ "[]"], rule exI [of _ "[]"], rule exI [of _ name]) simp

lemma filtered_df_plain:
  assumes "\<forall>c \<in> set search_name. c \<notin> set re_special"
  shows "filtered_df ieq search_name selected_date df =
     Some (filter (\<lambda>r. icontains ieq search_name (Name r)
                        \<and> (selected_date = str ''Semua'' \<or> Date r = selected_date)) df)"
proof (cases "search_name = []")
  case True
  then show ?thesis
    by (simp add: filtered_df_def icontains_empty)
next
  case False
  with re_compile_plain [OF assms] show ?thesis
    by (simp add: filtered_df_def re_search_literals conj_commute)
qed

text \<open>
  C3, as the code has it. For a search string without special characters of
  regular expressions and a selected date other than the entry Semua (all dates),
  the filter keeps exactly the records whose name contains the search string, the
  case of letters aside, and whose date is the selected one. With the entry Semua
  selected it keeps exactly the records whose name contains the search string, and
  with an empty search string exactly the records of the selected date. Characters
  are equal up to case as \<^verbatim>\<open>re.IGNORECASE\<close> has it: for any such comparison.
\<close>

theorem history_filter_plain_search:
  assumes "\<forall>c \<in> set search_name. c \<notin> set re_special"
  shows "(selected_date \<noteq> str ''Semua'' \<longrightarrow>
            filtered_df ieq search_name selected_date df =
              Some (filter (\<lambda>r. icontains ieq search_name (Name r) \<and> Date r = selected_date) df))
         \<and> filtered_df ieq search_name (str ''Semua'') df = Some (name_filter_spec ieq search_name df)
         \<and> (selected_date \<noteq> str ''Semua'' \<longrightarrow>
              filtered_df ieq [] selected_date df = Some (date_filter_spec selected_date df))"
proof -
  have "filtered_df ieq [] selected_date df =
     Some (filter (\<lambda>r. icontains ieq [] (Name r)
                        \<and> (selected_date = str ''Semua'' \<or> Date r = selected_date)) df)"
    by (rule filtered_df_plain) simp
  then have date_only: "selected_date \<noteq> str ''Semua'' \<longrightarrow>
      filtered_df ieq [] selected_date df = Some (date_filter_spec selected_date df)"
    by (simp add: date_filter_spec_def icontains_empty)
  from filtered_df_plain [OF assms, of ieq selected_date df]
    filtered_df_plain [OF assms, of ieq "str ''Semua''" df] date_only
  show ?thesis
    by (simp add: name_filter_spec_def)
qed

theorem history_filter_witness:
  "name_filter_spec ascii_ieq (str ''ali'')
     [\<lparr> Name = str ''Alice'', Time = str ''08:00:01'', Date = str ''04-November-2026'' \<rparr>,
      \<lparr> Name = str ''Bob'', Time = str ''08:15:00'', Date = str ''04-November-2026'' \<rparr>,
      \<lparr> Name = str ''SALIM'', Time = str ''08:20:00'', Date = str ''05-November-2026'' \<rparr>]
   = [\<lparr> Name = str ''Alice'', Time = str ''08:00:01'', Date = str ''04-November-2026'' \<rparr>,
      \<lparr> Name = str ''SALIM'', Time = str ''08:20:00'', Date = str ''05-November-2026'' \<rparr>]"
proof -
  let ?df = "[\<lparr> Name = str ''Alice'', Time = str ''08:00:01'', Date = str ''04-November-2026'' \<rparr>,
      \<lparr> Name = str ''Bob'', Time = str ''08:15:00'', Date = str ''04-November-2026'' \<rparr>,
      \<lparr> Name = str ''SALIM'', Time = str ''08:20:00'', Date = str ''05-November-2026'' \<rparr>]"
  have plain: "\<forall>c \<in> set (str ''ali''). c \<notin> set re_special"
    by (simp add: re_special_def str_def)
  have computed: "filtered_df ascii_ieq (str ''ali'') (str ''Semua'') ?df
      = Some [\<lparr> Name = str ''Alice'', Time = str ''08:00:01'', Date = str ''04-November-2026'' \<rparr>,
              \<lparr> Name = str ''SALIM'', Time = str ''08:20:00'', Date = str ''05-November-2026'' \<rparr>]"
    by (simp add: filtered_df_def re_special_def str_def ascii_ieq_def ascii_lower_def)
  from history_filter_plain_search [OF plain, THEN conjunct2, THEN conjunct1, of ascii_ieq ?df]
    computed
  show ?thesis by simp
qed

text \<open>
  C3 as stated fails twice. The search string is a regular expression: a dot
  matches any character, so the search for a dot keeps Alice, whose name contains
  no dot. And the selected date Semua is the entry for all dates: with a record of
  that date in the file the date box offers Semua a second time, as a date, and
  selecting it keeps the records of every date.
\<close>

theorem history_filter_counterexample:
  "filtered_df ascii_ieq (str ''.'') (str ''Semua'')
     [\<lparr> Name = str ''Alice'', Time = str ''08:00:01'', Date = str ''04-November-2026'' \<rparr>]
   \<noteq> Some (name_filter_spec ascii_ieq (str ''.'')
     [\<lparr> Name = str ''Alice'', Time = str ''08:00:01'', Date = str ''04-November-2026'' \<rparr>])
   \<and> filtered_df ascii_ieq [] (str ''Semua'')
     [\<lparr> Name = str ''Alice'', Time = str ''08:00:01'', Date = str ''Semua'' \<rparr>,
      \<lparr> Name = str ''Bob'', Time = str ''08:15:00'', Date = str ''04-November-2026'' \<rparr>]
   \<noteq> Some (date_filter_spec (str ''Semua'')
     [\<lparr> Name = str ''Alice'', Time = str ''08:00:01'', Date = str ''Semua'' \<rparr>,
      \<lparr> Name = str ''Bob'', Time = str ''08:15:00'', Date = str ''04-November-2026'' \<rparr>])
   \<and> date_options
     [\<lparr> Name = str ''Alice'', Time = str ''08:00:01'', Date = str ''Semua'' \<rparr>,
      \<lparr> Name = str ''Bob'', Time = str ''08:15:00'', Date = str ''04-November-2026'' \<rparr>]
     = [str ''Semua'', str ''Semua'', str ''04-November-2026'']"
proof -
  have "\<not> icontains ascii_ieq (str ''.'') (str ''Alice'')"
    unfolding re_search_literals [symmetric]
    by (simp add: str_def ascii_ieq_def ascii_lower_def)
  then show ?thesis
    by (simp add: filtered_df_def name_filter_spec_def date_filter_spec_def
        date_options_def unique_def str_def)
qed

subsection \<open>The ranking\<close>



lemma unique_snoc:
  "unique (xs @ [x]) = (if x \<in> set xs then unique xs else unique xs @ [x])"
  by (simp add: unique_def)











end
